theory Spec2Isabelle
  imports Complex_Main "HOL-Library.Word"
begin

unbundle bit_operations_syntax

section \<open>JavaScript values used by transaction.ts\<close>

text \<open>
  Conventions of the embedding.
  \<^item> A JavaScript string is a \<open>string\<close>: a list of code units below 256 (the Latin-1
    range, which covers the markup, the script text and the path data the code reads).
  \<^item> An integer-valued JavaScript number is an \<open>int\<close>; the doubles of the source agree
    with it as long as the magnitudes stay below \<open>2 ^ 53\<close>.  Where the code can produce
    \<open>NaN\<close> the type is \<open>number\<close>, and \<open>undefined\<close> is \<open>None\<close> of an option type.
  \<^item> An element of a \<open>Uint8Array\<close> is a \<open>byte\<close>; \<open>Array.from\<close> turns it into
    the number \<open>uint b\<close>.
  \<^item> Every \<open>throw\<close> is a value \<open>Inl e\<close> of the result type \<open>error + 'a\<close>.
\<close>

type_synonym byte = "8 word"

datatype error =
    NotInitialized          \<comment> \<open>"ClientTransaction is not initialized. Call initialize() before using."\<close>
  | IndicesNotFound         \<comment> \<open>"Couldn't get KEY_BYTE indices"\<close>
  | KeyNotFound             \<comment> \<open>"Couldn't get key from the page source"\<close>
  | FailedToGetKey          \<comment> \<open>"Failed to get key"\<close>
  | IndicesNotInitialized   \<comment> \<open>"Indices not initialized"\<close>
  | InvalidFrameData        \<comment> \<open>"Invalid frame data"\<close>
  | TypeError               \<comment> \<open>a property read on \<open>undefined\<close>\<close>
  | InvalidCharacterError   \<comment> \<open>\<open>decodeBase64\<close> on a string that is not base64\<close>

subsection \<open>32-bit integer operators\<close>

text \<open>\<open>&\<close>, \<open>>>\<close> and \<open>^\<close> convert their operands with ToInt32 and work on the
  two's-complement 32-bit values; \<open>>>\<close> takes its shift count modulo 32.\<close>

definition toInt32 :: "int \<Rightarrow> int" where
  "toInt32 x = signed_take_bit 31 x"

definition js_and :: "int \<Rightarrow> int \<Rightarrow> int" where
  "js_and a b = toInt32 a AND toInt32 b"

definition js_sar :: "int \<Rightarrow> nat \<Rightarrow> int" where
  "js_sar a n = drop_bit (n mod 32) (toInt32 a)"

definition js_xor :: "int \<Rightarrow> int \<Rightarrow> int" where
  "js_xor a b = toInt32 a XOR toInt32 b"

text \<open>Storing a number into a \<open>Uint8Array\<close> keeps it modulo 256.\<close>

definition toUint8 :: "int \<Rightarrow> byte" where
  "toUint8 x = word_of_int x"

text \<open>The remainder operator \<open>%\<close> truncates: its result has the sign of the dividend.\<close>

definition js_rem :: "int \<Rightarrow> int \<Rightarrow> int" where
  "js_rem a b = sgn a * (\<bar>a\<bar> mod \<bar>b\<bar>)"

subsection \<open>Numbers in template literals\<close>

definition digit_char :: "nat \<Rightarrow> char" where
  "digit_char d = char_of (48 + d)"

fun decimal :: "nat \<Rightarrow> string" where
  "decimal n = (if n < 10 then [digit_char n] else decimal (n div 10) @ [digit_char (n mod 10)])"

declare decimal.simps [simp del]

text \<open>\<open>`${n}`\<close> for an integer \<open>n\<close> (decimal digits, as Number::toString prints every
  integer of magnitude below \<open>10 ^ 21\<close>).\<close>

definition numberToString :: "int \<Rightarrow> string" where
  "numberToString n = (if n < 0 then CHR ''-'' # decimal (nat (- n)) else decimal (nat n))"

subsection \<open>TextEncoder\<close>

text \<open>UTF-8 of a code unit below 256: one byte below 128, two bytes from 128 on.\<close>

definition utf8_unit :: "char \<Rightarrow> byte list" where
  "utf8_unit c =
     (let n = (of_char c :: nat)
      in if n < 128 then [of_nat n] else [of_nat (192 + n div 64), of_nat (128 + n mod 64)])"

definition textEncode :: "string \<Rightarrow> byte list" where
  "textEncode s = concat (map utf8_unit s)"

subsection \<open>Base64 of the standard library (@std/encoding)\<close>

definition b64_alphabet :: string where
  "b64_alphabet = ''ABCDEFGHIJKLMNOPQRSTUVWXYZabcdefghijklmnopqrstuvwxyz0123456789+/''"

definition b64_char :: "nat \<Rightarrow> char" where
  "b64_char n = b64_alphabet ! n"

text \<open>Three bytes give four characters; one or two bytes left over give two or three
  characters and \<open>=\<close> padding up to four.\<close>

fun b64_groups :: "nat list \<Rightarrow> string" where
  "b64_groups (a # b # c # rest) =
     b64_char (a div 4) # b64_char ((a mod 4) * 16 + b div 16) #
     b64_char ((b mod 16) * 4 + c div 64) # b64_char (c mod 64) # b64_groups rest"
| "b64_groups [a, b] =
     [b64_char (a div 4), b64_char ((a mod 4) * 16 + b div 16), b64_char ((b mod 16) * 4), CHR ''='']"
| "b64_groups [a] = [b64_char (a div 4), b64_char ((a mod 4) * 16), CHR ''='', CHR ''='']"
| "b64_groups [] = []"

definition encodeBase64 :: "byte list \<Rightarrow> string" where
  "encodeBase64 bs = b64_groups (map unat bs)"

text \<open>\<open>decodeBase64\<close> is \<open>atob\<close> read into bytes: ASCII whitespace is skipped, up to two
  \<open>=\<close> are dropped from the end of a string whose length is a multiple of four, and what
  is left must be alphabet characters, not one more than a multiple of four of them.\<close>

definition b64_value :: "char \<Rightarrow> nat option" where
  "b64_value c = map_of (zip b64_alphabet [0 ..< 64]) c"

definition ascii_whitespace :: "char \<Rightarrow> bool" where
  "ascii_whitespace c =
     (let n = (of_char c :: nat) in n = 9 \<or> n = 10 \<or> n = 12 \<or> n = 13 \<or> n = 32)"

definition strip_padding :: "string \<Rightarrow> string" where
  "strip_padding s =
     (if length s mod 4 = 0 \<and> s \<noteq> [] \<and> last s = CHR ''=''
      then (if butlast s \<noteq> [] \<and> last (butlast s) = CHR ''='' then butlast (butlast s) else butlast s)
      else s)"

fun sextets_bytes :: "nat list \<Rightarrow> nat list" where
  "sextets_bytes (p # q # r # t # rest) =
     (p * 4 + q div 16) # ((q mod 16) * 16 + r div 4) # ((r mod 4) * 64 + t) # sextets_bytes rest"
| "sextets_bytes [p, q, r] = [p * 4 + q div 16, (q mod 16) * 16 + r div 4]"
| "sextets_bytes [p, q] = [p * 4 + q div 16]"
| "sextets_bytes _ = []"

definition decodeBase64 :: "string \<Rightarrow> error + byte list" where
  "decodeBase64 b64 =
     (let s = strip_padding (filter (\<lambda>c. \<not> ascii_whitespace c) b64)
      in if length s mod 4 = 1 \<or> list_ex (\<lambda>c. b64_value c = None) s
         then Inl InvalidCharacterError
         else Inr (map of_nat (sextets_bytes (map (\<lambda>c. the (b64_value c)) s))))"

subsection \<open>Numbers that may be NaN\<close>

text \<open>Indices and frame values are numbers read with \<open>parseInt\<close>; reading an array out of
  range gives \<open>undefined\<close>, which arithmetic turns into \<open>NaN\<close>.\<close>

datatype number = NaN | Num int

definition js_at :: "'a list \<Rightarrow> number \<Rightarrow> 'a option" where
  "js_at xs idx =
     (case idx of
        NaN \<Rightarrow> None
      | Num i \<Rightarrow> if 0 \<le> i \<and> nat i < length xs then Some (xs ! nat i) else None)"

definition byteToNumber :: "byte option \<Rightarrow> number" where
  "byteToNumber v = (case v of None \<Rightarrow> NaN | Some b \<Rightarrow> Num (uint b))"

definition num_rem :: "number \<Rightarrow> int \<Rightarrow> number" where
  "num_rem a b = (case a of NaN \<Rightarrow> NaN | Num x \<Rightarrow> Num (js_rem x b))"

definition num_mul :: "number \<Rightarrow> number \<Rightarrow> number" where
  "num_mul a b = (case (a, b) of (Num x, Num y) \<Rightarrow> Num (x * y) | _ \<Rightarrow> NaN)"

text \<open>\<open>Math.round(x / 10) * 10\<close>: \<open>Math.round\<close> rounds a half towards plus infinity.\<close>

definition round_to_tens :: "number \<Rightarrow> number" where
  "round_to_tens a = (case a of NaN \<Rightarrow> NaN | Num x \<Rightarrow> Num (((x + 5) div 10) * 10))"

text \<open>\<open>x / d\<close> as a fraction; \<open>None\<close> is \<open>NaN\<close>.\<close>

definition num_div :: "number \<Rightarrow> int \<Rightarrow> rat option" where
  "num_div a d = (case a of NaN \<Rightarrow> None | Num x \<Rightarrow> Some (Fract x d))"

subsection \<open>String methods and regular expressions\<close>

definition is_digit :: "char \<Rightarrow> bool" where
  "is_digit c = (48 \<le> (of_char c :: nat) \<and> (of_char c :: nat) \<le> 57)"

text \<open>\<open>\w\<close> is a letter, a digit or the underscore.\<close>

definition is_word_char :: "char \<Rightarrow> bool" where
  "is_word_char c =
     (let n = (of_char c :: nat)
      in (48 \<le> n \<and> n \<le> 57) \<or> (65 \<le> n \<and> n \<le> 90) \<or> (97 \<le> n \<and> n \<le> 122) \<or> n = 95)"

text \<open>\<open>\s\<close> and the characters \<open>trim\<close> removes, among the code units below 256: tab,
  line feed, vertical tab, form feed, carriage return, space and no-break space.\<close>

definition js_whitespace :: "char \<Rightarrow> bool" where
  "js_whitespace c =
     (let n = (of_char c :: nat) in (9 \<le> n \<and> n \<le> 13) \<or> n = 32 \<or> n = 160)"

definition is_quote :: "char \<Rightarrow> bool" where
  "is_quote c = (c = CHR 0x27 \<or> c = CHR 0x22)"

definition digits_value :: "string \<Rightarrow> nat" where
  "digits_value ds = foldl (\<lambda>acc c. 10 * acc + (of_char c - 48)) 0 ds"

text \<open>\<open>parseInt(str, 10)\<close>: leading whitespace, an optional sign, then the longest run of
  digits; \<open>NaN\<close> when there is no digit there.\<close>

definition parseInt10 :: "string \<Rightarrow> number" where
  "parseInt10 str =
     (let s = dropWhile js_whitespace str;
          neg = (s \<noteq> [] \<and> hd s = CHR ''-'');
          body = (if s \<noteq> [] \<and> (hd s = CHR ''-'' \<or> hd s = CHR ''+'') then tl s else s);
          ds = takeWhile is_digit body
      in if ds = [] then NaN
         else Num (if neg then - int (digits_value ds) else int (digits_value ds)))"

text \<open>\<open>s.split(c)\<close> for a one-character separator: always at least one piece.\<close>

fun split_char :: "char \<Rightarrow> string \<Rightarrow> string list" where
  "split_char c [] = [[]]"
| "split_char c (x # xs) =
     (if x = c then [] # split_char c xs
      else (case split_char c xs of piece # pieces \<Rightarrow> (x # piece) # pieces | [] \<Rightarrow> [[x]]))"

text \<open>\<open>item.replace(/[^\d]+/g, " ")\<close>: every maximal run of non-digits becomes one space.\<close>

function replace_non_digits :: "string \<Rightarrow> string" where
  "replace_non_digits [] = []"
| "replace_non_digits (x # xs) =
     (if is_digit x then x # replace_non_digits xs
      else CHR '' '' # replace_non_digits (dropWhile (\<lambda>c. \<not> is_digit c) xs))"
  by pat_completeness auto
termination
  by (relation "measure length") (auto simp: length_dropWhile_le less_Suc_eq_le)

definition trim :: "string \<Rightarrow> string" where
  "trim s = rev (dropWhile js_whitespace (rev (dropWhile js_whitespace s)))"

text \<open>\<open>cleaned.split(/\s+/)\<close>: the pieces between maximal runs of whitespace (an empty
  piece before a leading run and after a trailing one).\<close>

function split_ws :: "string \<Rightarrow> string list" where
  "split_ws [] = [[]]"
| "split_ws (x # xs) =
     (if js_whitespace x then [] # split_ws (dropWhile js_whitespace xs)
      else (case split_ws xs of piece # pieces \<Rightarrow> (x # piece) # pieces | [] \<Rightarrow> [[x]]))"
  by pat_completeness auto
termination
  by (relation "measure length") (auto simp: length_dropWhile_le less_Suc_eq_le)

text \<open>\<open>INDICES_REGEX = /\(\w\[(\d{1,2})\],\s*16\)/g\<close> tried at the start of a string: the
  captured digits and what follows the match.\<close>

definition indices_tail :: "string \<Rightarrow> string option" where
  "indices_tail s =
     (case s of
        b # c # r \<Rightarrow>
          if b = CHR '']'' \<and> c = CHR '',''
          then (case dropWhile js_whitespace r of
                  p # q # t # rest \<Rightarrow>
                    if p = CHR ''1'' \<and> q = CHR ''6'' \<and> t = CHR '')'' then Some rest else None
                | _ \<Rightarrow> None)
          else None
      | _ \<Rightarrow> None)"

definition indices_match_at :: "string \<Rightarrow> (string \<times> string) option" where
  "indices_match_at s =
     (case s of
        a # w # b # d1 # r \<Rightarrow>
          if a = CHR ''('' \<and> is_word_char w \<and> b = CHR ''['' \<and> is_digit d1
          then (case r of
                  d2 # r2 \<Rightarrow>
                    if is_digit d2 then map_option (Pair [d1, d2]) (indices_tail r2)
                    else map_option (Pair [d1]) (indices_tail r)
                | [] \<Rightarrow> None)
          else None
      | _ \<Rightarrow> None)"

lemma indices_tail_shorter: "indices_tail s = Some rest \<Longrightarrow> length rest < length s"
proof -
  assume a: "indices_tail s = Some rest"
  then obtain b c r where s: "s = b # c # r"
    by (auto simp: indices_tail_def split: list.splits)
  from a s obtain p q t where d: "dropWhile js_whitespace r = p # q # t # rest"
    by (auto simp: indices_tail_def split: list.splits if_splits)
  have "length (dropWhile js_whitespace r) \<le> length r"
    by (rule length_dropWhile_le)
  with d s show ?thesis by simp
qed

lemma indices_match_at_shorter:
  "indices_match_at s = Some (cap, rest) \<Longrightarrow> length rest < length s"
  by (auto simp: indices_match_at_def split: list.splits if_splits dest!: indices_tail_shorter)

text \<open>The \<open>while ((match = INDICES_REGEX.exec(responseText)) !== null)\<close> loop, started at
  \<open>lastIndex = 0\<close>: every match from left to right, each search resuming where the last
  match ended.\<close>

function indices_exec_all :: "string \<Rightarrow> string list" where
  "indices_exec_all [] = []"
| "indices_exec_all (c # cs) =
     (case indices_match_at (c # cs) of
        Some (cap, rest) \<Rightarrow> cap # indices_exec_all rest
      | None \<Rightarrow> indices_exec_all cs)"
  by pat_completeness auto
termination
  by (relation "measure length") (auto dest: indices_match_at_shorter)

text \<open>\<open>ON_DEMAND_FILE_REGEX = /(['"])ondemand\.s\1:\s*(['"])([\w]*)\2/\<close> tried at the
  start of a string: the third group of the match.\<close>

fun strip_prefix :: "string \<Rightarrow> string \<Rightarrow> string option" where
  "strip_prefix [] s = Some s"
| "strip_prefix (p # ps) [] = None"
| "strip_prefix (p # ps) (c # cs) = (if p = c then strip_prefix ps cs else None)"

definition ondemand_match_at :: "string \<Rightarrow> string option" where
  "ondemand_match_at s =
     (case s of
        [] \<Rightarrow> None
      | q1 # r \<Rightarrow>
          if \<not> is_quote q1 then None
          else (case strip_prefix (''ondemand.s'' @ [q1] @ '':'') r of
                  None \<Rightarrow> None
                | Some r1 \<Rightarrow>
                    (case dropWhile js_whitespace r1 of
                       [] \<Rightarrow> None
                     | q2 # r2 \<Rightarrow>
                         if \<not> is_quote q2 then None
                         else (case dropWhile is_word_char r2 of
                                 [] \<Rightarrow> None
                               | q3 # r3 \<Rightarrow>
                                   if q3 = q2 then Some (takeWhile is_word_char r2) else None))))"

text \<open>\<open>ON_DEMAND_FILE_REGEX.exec(responseStr)\<close>: the leftmost match.\<close>

fun ondemand_exec :: "string \<Rightarrow> string option" where
  "ondemand_exec [] = None"
| "ondemand_exec (c # cs) =
     (case ondemand_match_at (c # cs) of Some g \<Rightarrow> Some g | None \<Rightarrow> ondemand_exec cs)"

section \<open>The document, the host and the session\<close>

text \<open>The DOM as far as the code reads it: an element has attributes and child elements;
  a document has its serialised markup and answers the two selector queries of the code.\<close>

datatype element = Element (attrs: "(string \<times> string) list") (children: "element list")

definition getAttribute :: "element \<Rightarrow> string \<Rightarrow> string option" where
  "getAttribute e name = map_of (attrs e) name"

record document =
  outerHTML :: string
    \<comment> \<open>\<open>documentElement.outerHTML\<close>\<close>
  siteVerification :: "element option"
    \<comment> \<open>\<open>querySelector("[name='twitter-site-verification']")\<close>\<close>
  loadingAnims :: "element list"
    \<comment> \<open>\<open>querySelectorAll("[id^='loading-x-anim']")\<close>, in document order\<close>

text \<open>What \<open>fetch\<close> resolves to; \<open>body_text\<close> is \<open>None\<close> when reading the body fails.\<close>

record fetch_response =
  ok :: bool
  statusText :: string
  body_text :: "string option"

text \<open>
  The collaborators of the class.  \<open>fetch\<close> gives \<open>None\<close> when the request is rejected.
  \<open>animate\<close> is floating-point arithmetic over the modules cubic.ts, interpolate.ts,
  rotation.ts and utils.ts; they are parameters here, over an unspecified type \<open>'f\<close> of
  doubles, each standing for the lines of \<open>animate\<close> named with it:
  \<^item> \<open>solve_curves\<close>: the curve values computed with \<open>solve\<close> and \<open>isOdd\<close> from
    \<open>frames.slice(7)\<close> (lines 261-264);
  \<^item> \<open>cubic_getValue\<close>: \<open>new Cubic(curves).getValue(targetTime)\<close> (lines 266-267);
  \<^item> \<open>encode_key\<close>: the key string built from \<open>frames.slice(0, 3)\<close>,
    \<open>frames.slice(3, 6)\<close>, \<open>frames[6]\<close> and the curve value (lines 256-259, 268-294).
\<close>

record 'f host =
  sha256 :: "byte list \<Rightarrow> byte list"
  fetch :: "string \<Rightarrow> fetch_response option"
  solve_curves :: "number list \<Rightarrow> 'f list"
  cubic_getValue :: "'f list \<Rightarrow> rat option \<Rightarrow> 'f"
  encode_key :: "number list \<Rightarrow> number list \<Rightarrow> number option \<Rightarrow> 'f \<Rightarrow> string"

text \<open>What differs from call to call: the clock (\<open>Date.now()\<close>) and the random byte
  (\<open>Math.floor(Math.random() * 256)\<close>).\<close>

record world =
  now_millis :: int
  random_byte :: byte

record session =
  DEFAULT_ROW_INDEX :: "number option"
  DEFAULT_KEY_BYTES_INDICES :: "number list option"
  homePageDocument :: document
  key :: "string option"
  keyBytes :: "byte list option"
  animationKey :: "string option"
  isInitialized :: bool

definition ADDITIONAL_RANDOM_NUMBER :: int where
  "ADDITIONAL_RANDOM_NUMBER = 3"

definition DEFAULT_KEYWORD :: string where
  "DEFAULT_KEYWORD = ''obfiowerehiring''"

text \<open>\<open>new ClientTransaction(homePageDocument)\<close>.\<close>

definition new_session :: "document \<Rightarrow> session" where
  "new_session doc =
     \<lparr> DEFAULT_ROW_INDEX = None, DEFAULT_KEY_BYTES_INDICES = None, homePageDocument = doc,
       key = None, keyBytes = None, animationKey = None, isInitialized = False \<rparr>"

section \<open>The methods of ClientTransaction\<close>

text \<open>\<open>x || y\<close> on an optional document: an object is always truthy.\<close>

definition doc_or :: "document option \<Rightarrow> document \<Rightarrow> document" where
  "doc_or response d = (case response of Some r \<Rightarrow> r | None \<Rightarrow> d)"

subsection \<open>getIndices\<close>

definition onDemandFileUrl :: "string \<Rightarrow> string" where
  "onDemandFileUrl g = ''https://abs.twimg.com/responsive-web/client-web/ondemand.s.'' @ g @ ''a.js''"

text \<open>The strings pushed to \<open>keyByteIndices\<close>: an error inside the \<open>try\<close> block (a
  rejected request, a response that is not ok, a body that cannot be read) is caught and
  leaves the list empty.\<close>

definition collectIndices :: "'f host \<Rightarrow> string \<Rightarrow> string list" where
  "collectIndices h responseStr =
     (case ondemand_exec responseStr of
        None \<Rightarrow> []
      | Some g \<Rightarrow>
          (case fetch h (onDemandFileUrl g) of
             None \<Rightarrow> []
           | Some onDemandFileResponse \<Rightarrow>
               if \<not> ok onDemandFileResponse then []
               else (case body_text onDemandFileResponse of
                       None \<Rightarrow> []
                     | Some responseText \<Rightarrow> indices_exec_all responseText)))"

definition getIndices :: "'f host \<Rightarrow> session \<Rightarrow> document option \<Rightarrow> error + (number \<times> number list)" where
  "getIndices h s homePageDocumentArg =
     (let response = doc_or homePageDocumentArg (homePageDocument s);
          responseStr = outerHTML response;
          keyByteIndices = collectIndices h responseStr
      in if keyByteIndices = [] then Inl IndicesNotFound
         else (let numericIndices = map parseInt10 keyByteIndices
               in Inr (hd numericIndices, tl numericIndices)))"

subsection \<open>getKey, getKeyBytes, getFrames\<close>

definition getKey :: "session \<Rightarrow> document option \<Rightarrow> error + string" where
  "getKey s responseArg =
     (let response = doc_or responseArg (homePageDocument s);
          content = (case siteVerification response of
                       None \<Rightarrow> []
                     | Some element \<Rightarrow>
                         (case getAttribute element ''content'' of None \<Rightarrow> [] | Some c \<Rightarrow> c))
      in if content = [] then Inl KeyNotFound else Inr content)"

definition getKeyBytes :: "string \<Rightarrow> error + byte list" where
  "getKeyBytes k = decodeBase64 k"

definition getFrames :: "session \<Rightarrow> document option \<Rightarrow> element list" where
  "getFrames s responseArg = loadingAnims (doc_or responseArg (homePageDocument s))"

subsection \<open>get2dArray\<close>

text \<open>Step 3 of \<open>get2dArray\<close>: one segment of the path data to a row of numbers.\<close>

definition parseSegment :: "string \<Rightarrow> number list" where
  "parseSegment item =
     (let cleaned = trim (replace_non_digits item);
          parts = (if cleaned = [] then [] else split_ws cleaned)
      in map parseInt10 parts)"

text \<open>Steps 2 and 3: the path data to the table.\<close>

definition parsePathData :: "string \<Rightarrow> number list list" where
  "parsePathData dAttr = map parseSegment (split_char CHR ''C'' (drop 9 dAttr))"

text \<open>Lines 208-226: from the selected frame to the table.  A read on a missing child
  throws; a path element without the \<open>d\<close> attribute gives the table with no row.\<close>

definition framePathTable :: "element \<Rightarrow> error + number list list" where
  "framePathTable frame =
     (case js_at (children frame) (Num 0) of
        None \<Rightarrow> Inl TypeError
      | Some firstChild \<Rightarrow>
          (case js_at (children firstChild) (Num 1) of
             None \<Rightarrow> Inl TypeError
           | Some targetChild \<Rightarrow>
               (case getAttribute targetChild ''d'' of
                  None \<Rightarrow> Inr []
                | Some dAttr \<Rightarrow> Inr (parsePathData dAttr))))"

definition get2dArray ::
  "session \<Rightarrow> byte list \<Rightarrow> document option \<Rightarrow> element list option \<Rightarrow> error + number list list" where
  "get2dArray s keyBytesArg response framesArg =
     (let frames = (case framesArg of None \<Rightarrow> getFrames s response | Some fs \<Rightarrow> fs)
      in if frames = [] then Inr [[]]
         else (case js_at frames (num_rem (byteToNumber (js_at keyBytesArg (Num 5))) 4) of
                 None \<Rightarrow> Inl TypeError
               | Some frame \<Rightarrow> framePathTable frame))"

subsection \<open>animate and getAnimationKey\<close>

definition animate :: "'f host \<Rightarrow> number list \<Rightarrow> rat option \<Rightarrow> string" where
  "animate h frames targetTime =
     (let curves = solve_curves h (drop 7 frames);
          val = cubic_getValue h curves targetTime
      in encode_key h (take 3 frames) (take 3 (drop 3 frames)) (js_at frames (Num 6)) val)"

text \<open>The \<open>reduce\<close> of \<open>getAnimationKey\<close> and the rounding after it.\<close>

definition frameTimeOf :: "byte list \<Rightarrow> number list \<Rightarrow> number" where
  "frameTimeOf keyBytesArg indices =
     round_to_tens
       (foldl (\<lambda>num1 num2. num_mul num1 (num_rem (byteToNumber (js_at keyBytesArg num2)) 16))
          (Num 1) indices)"

definition getAnimationKey :: "'f host \<Rightarrow> session \<Rightarrow> byte list \<Rightarrow> document option \<Rightarrow> error + string" where
  "getAnimationKey h s keyBytesArg response =
     (let totalTime = 4096
      in case (DEFAULT_ROW_INDEX s, DEFAULT_KEY_BYTES_INDICES s) of
           (Some defaultRowIndex, Some defaultKeyBytesIndices) \<Rightarrow>
             (let rowIndex = num_rem (byteToNumber (js_at keyBytesArg defaultRowIndex)) 16;
                  frameTime = frameTimeOf keyBytesArg defaultKeyBytesIndices
              in case get2dArray s keyBytesArg response None of
                   Inl e \<Rightarrow> Inl e
                 | Inr arr \<Rightarrow>
                     (case js_at arr rowIndex of
                        None \<Rightarrow> Inl InvalidFrameData
                      | Some frameRow \<Rightarrow>
                          (let targetTime = num_div frameTime totalTime
                           in Inr (animate h frameRow targetTime))))
         | _ \<Rightarrow> Inl IndicesNotInitialized)"

subsection \<open>initialize\<close>

text \<open>Each assignment to a field is an update of the session; an error leaves the
  fields assigned before it.\<close>

definition initialize :: "'f host \<Rightarrow> session \<Rightarrow> (error + unit) \<times> session" where
  "initialize h s =
     (if isInitialized s then (Inr (), s)
      else case getIndices h s (Some (homePageDocument s)) of
        Inl e \<Rightarrow> (Inl e, s)
      | Inr (rowIndex, indices) \<Rightarrow>
          (let s1 = s\<lparr>DEFAULT_ROW_INDEX := Some rowIndex, DEFAULT_KEY_BYTES_INDICES := Some indices\<rparr>
           in case getKey s1 (Some (homePageDocument s1)) of
                Inl e \<Rightarrow> (Inl e, s1)
              | Inr k \<Rightarrow>
                  (let s2 = s1\<lparr>key := Some k\<rparr>
                   in if k = [] then (Inl FailedToGetKey, s2)
                      else case getKeyBytes k of
                        Inl e \<Rightarrow> (Inl e, s2)
                      | Inr kb \<Rightarrow>
                          (let s3 = s2\<lparr>keyBytes := Some kb\<rparr>
                           in case getAnimationKey h s3 kb (Some (homePageDocument s3)) of
                                Inl e \<Rightarrow> (Inl e, s3)
                              | Inr ak \<Rightarrow> (Inr (), s3\<lparr>animationKey := Some ak, isInitialized := True\<rparr>)))))"

subsection \<open>generateTransactionId\<close>

text \<open>Line 356: \<open>timeNow || Math.floor((Date.now() - 1682924400 * 1000) / 1000)\<close>.  The
  argument is \<open>None\<close> when it is not supplied; a supplied \<open>0\<close> is falsy.\<close>

definition resolveTimeNow :: "world \<Rightarrow> int option \<Rightarrow> int" where
  "resolveTimeNow w timeNowArg =
     (case timeNowArg of
        Some t \<Rightarrow> if t \<noteq> 0 then t else (now_millis w - 1682924400 * 1000) div 1000
      | None \<Rightarrow> (now_millis w - 1682924400 * 1000) div 1000)"

text \<open>Lines 357-362.\<close>

definition timeNowBytes :: "int \<Rightarrow> int list" where
  "timeNowBytes timeNow =
     [js_and timeNow 255, js_and (js_sar timeNow 8) 255,
      js_and (js_sar timeNow 16) 255, js_and (js_sar timeNow 24) 255]"

text \<open>Line 364: \<open>key || this.key || this.getKey(response)\<close>; the empty string is falsy.\<close>

definition resolveKey :: "session \<Rightarrow> document option \<Rightarrow> string option \<Rightarrow> error + string" where
  "resolveKey s response keyArg =
     (case keyArg of
        Some k \<Rightarrow> if k \<noteq> [] then Inr k
                  else (case key s of
                          Some k' \<Rightarrow> if k' \<noteq> [] then Inr k' else getKey s response
                        | None \<Rightarrow> getKey s response)
      | None \<Rightarrow> (case key s of
                   Some k' \<Rightarrow> if k' \<noteq> [] then Inr k' else getKey s response
                 | None \<Rightarrow> getKey s response))"

text \<open>Lines 365-367: \<open>key ? this.getKeyBytes(key) : this.keyBytes || this.getKeyBytes(key)\<close>.\<close>

definition resolveKeyBytes :: "session \<Rightarrow> string \<Rightarrow> error + byte list" where
  "resolveKeyBytes s k =
     (if k \<noteq> [] then getKeyBytes k
      else (case keyBytes s of Some kb \<Rightarrow> Inr kb | None \<Rightarrow> getKeyBytes k))"

text \<open>Lines 368-371: \<open>animationKey || this.animationKey || this.getAnimationKey(keyBytes, response)\<close>.\<close>

definition resolveAnimationKey ::
  "'f host \<Rightarrow> session \<Rightarrow> byte list \<Rightarrow> document option \<Rightarrow> string option \<Rightarrow> error + string" where
  "resolveAnimationKey h s kb response animationKeyArg =
     (case animationKeyArg of
        Some a \<Rightarrow> if a \<noteq> [] then Inr a
                  else (case animationKey s of
                          Some a' \<Rightarrow> if a' \<noteq> [] then Inr a' else getAnimationKey h s kb response
                        | None \<Rightarrow> getAnimationKey h s kb response)
      | None \<Rightarrow> (case animationKey s of
                   Some a' \<Rightarrow> if a' \<noteq> [] then Inr a' else getAnimationKey h s kb response
                 | None \<Rightarrow> getAnimationKey h s kb response))"

text \<open>Lines 373-394, from the resolved values to the identifier.\<close>

definition encodeTransaction ::
  "(byte list \<Rightarrow> byte list) \<Rightarrow> string \<Rightarrow> string \<Rightarrow> byte list \<Rightarrow> string \<Rightarrow> int \<Rightarrow> int \<Rightarrow> string" where
  "encodeTransaction sha method path kb animKey timeNow randomNum =
     (let data = method @ ''!'' @ path @ ''!'' @ numberToString timeNow @ DEFAULT_KEYWORD @ animKey;
          dataBuffer = textEncode data;
          hashBytes = map uint (sha dataBuffer);
          bytesArr = map uint kb @ timeNowBytes timeNow @ take 16 hashBytes @ [ADDITIONAL_RANDOM_NUMBER];
          out = map toUint8 (randomNum # map (\<lambda>item. js_xor item randomNum) bytesArr)
      in filter (\<lambda>c. c \<noteq> CHR ''='') (encodeBase64 out))"

text \<open>The method returns its result and the session it leaves.\<close>

definition generateTransactionId ::
  "'f host \<Rightarrow> world \<Rightarrow> string \<Rightarrow> string \<Rightarrow> document option \<Rightarrow> string option \<Rightarrow> string option \<Rightarrow>
   int option \<Rightarrow> session \<Rightarrow> (error + string) \<times> session" where
  "generateTransactionId h w method path response keyArg animationKeyArg timeNowArg s =
     (if \<not> isInitialized s then (Inl NotInitialized, s)
      else (let timeNow = resolveTimeNow w timeNowArg
            in case resolveKey s response keyArg of
                 Inl e \<Rightarrow> (Inl e, s)
               | Inr k \<Rightarrow>
                   (case resolveKeyBytes s k of
                      Inl e \<Rightarrow> (Inl e, s)
                    | Inr kb \<Rightarrow>
                        (case resolveAnimationKey h s kb response animationKeyArg of
                           Inl e \<Rightarrow> (Inl e, s)
                         | Inr animKey \<Rightarrow>
                             (let randomNum = uint (random_byte w)
                              in (Inr (encodeTransaction (sha256 h) method path kb animKey timeNow randomNum),
                                  s))))))"

section \<open>The identifier as the specification states it\<close>

text \<open>\<open>timeBytes\<close>: four bytes, little-endian, of \<open>timeNow\<close> masked to 32 bits.\<close>

definition timeBytes :: "int \<Rightarrow> byte list" where
  "timeBytes timeNow =
     (let m = timeNow mod 2 ^ 32
      in [word_of_int m, word_of_int (m div 2 ^ 8), word_of_int (m div 2 ^ 16), word_of_int (m div 2 ^ 24)])"

text \<open>\<open>payload = keyBytes ++ timeBytes ++ digest[0:16] ++ [3]\<close>, the digest being that of
  \<open>method + "!" + path + "!" + timeNow + "obfiowerehiring" + animationKey\<close> in UTF-8.\<close>

definition payload ::
  "(byte list \<Rightarrow> byte list) \<Rightarrow> string \<Rightarrow> string \<Rightarrow> byte list \<Rightarrow> string \<Rightarrow> int \<Rightarrow> byte list" where
  "payload sha method path kb animKey timeNow =
     kb @ timeBytes timeNow @
     take 16 (sha (textEncode (method @ ''!'' @ path @ ''!'' @ numberToString timeNow @
                               ''obfiowerehiring'' @ animKey))) @
     [3]"

text \<open>\<open>output = [mask] ++ payload.map(b => b XOR mask)\<close>.\<close>

definition masked :: "byte \<Rightarrow> byte list \<Rightarrow> byte list" where
  "masked m p = m # map (\<lambda>b. b XOR m) p"

definition strip_equals :: "string \<Rightarrow> string" where
  "strip_equals str = filter (\<lambda>c. c \<noteq> CHR ''='') str"

text \<open>Undoing the mask: every byte from index 1 onward XOR byte 0.\<close>

definition unmask :: "byte list \<Rightarrow> byte list" where
  "unmask out = (case out of [] \<Rightarrow> [] | m # rest \<Rightarrow> map (\<lambda>b. b XOR m) rest)"

text \<open>Bytes read as a little-endian integer.\<close>

definition le_decode :: "byte list \<Rightarrow> int" where
  "le_decode bs = foldr (\<lambda>b acc. uint b + 256 * acc) bs 0"


text \<open>\<open>fetch(url) -> text\<close>: \<open>None\<close> when the fetch fails (the request is rejected, the
  response is not ok, or its body cannot be read).\<close>

definition fetchText :: "'f host \<Rightarrow> string \<Rightarrow> string option" where
  "fetchText h url =
     (case fetch h url of
        None \<Rightarrow> None
      | Some r \<Rightarrow> if ok r then body_text r else None)"




section \<open>An example: the end-to-end scenario\<close>

text \<open>A page with the key \<open>AAECAwQFBgcICQoLDA0ODw==\<close> (the bytes 0 to 15), four animation
  frames, and an auxiliary script that yields row index 0 and key-byte indices 5 and 7.
  The digest and the floating-point helpers are stand-ins.\<close>

definition example_path :: string where
  "example_path = ''M 0,0 0,0'' @ ''10 20 30 40 50 60 128 5 6 7 8C1 2 3 4 5 6 7 8 9C hC77''"

definition example_frame :: "string \<Rightarrow> element" where
  "example_frame d = Element [] [Element [] [Element [] [], Element [(''d'', d)] []]]"

definition example_document :: document where
  "example_document =
     \<lparr> outerHTML = ''<script>{'' @ [CHR 0x22] @ ''ondemand.s'' @ [CHR 0x22] @ '': '' @ [CHR 0x22] @
                   ''4f2a'' @ [CHR 0x22] @ ''}</script>'',
       siteVerification = Some (Element [(''name'', ''twitter-site-verification''),
                                         (''content'', ''AAECAwQFBgcICQoLDA0ODw=='')] []),
       loadingAnims = [example_frame ''M 0,0 0,0 1C2'', example_frame example_path,
                       example_frame ''M 0,0 0,0 3C4'', example_frame ''M 0,0 0,0 5C6''] \<rparr>"

definition example_script :: string where
  "example_script = ''f=(a[0], 16);g=(b[5], 16)*(c[7],16);h=(d[345], 16)''"

definition example_host :: "int host" where
  "example_host =
     \<lparr> sha256 = (\<lambda>bs. map of_nat [length bs ..< length bs + 32]),
       fetch = (\<lambda>url. if url = ''https://abs.twimg.com/responsive-web/client-web/ondemand.s.4f2aa.js''
                       then Some \<lparr> ok = True, statusText = ''OK'', body_text = Some example_script \<rparr>
                       else None),
       solve_curves = map (\<lambda>n. case n of NaN \<Rightarrow> 0 | Num i \<Rightarrow> i),
       cubic_getValue = (\<lambda>curves t. case t of None \<Rightarrow> 0 | Some q \<Rightarrow> sum_list curves + \<lfloor>q * 4096\<rfloor>),
       encode_key = (\<lambda>fromColor toColor rotation val. numberToString val @ ''00'') \<rparr>"

definition example_world :: world where
  "example_world = \<lparr> now_millis = 1700000000000, random_byte = 0x42 \<rparr>"

definition example_keyBytes :: "byte list" where
  "example_keyBytes = [0, 1, 2, 3, 4, 5, 6, 7, 8, 9, 10, 11, 12, 13, 14, 15]"

definition example_session :: session where
  "example_session =
     \<lparr> DEFAULT_ROW_INDEX = Some (Num 0), DEFAULT_KEY_BYTES_INDICES = Some [Num 5, Num 7],
       homePageDocument = example_document, key = Some ''AAECAwQFBgcICQoLDA0ODw=='',
       keyBytes = Some example_keyBytes, animationKey = Some ''6600'', isInitialized = True \<rparr>"

text \<open>The same session on a page without animation frames.\<close>

definition frameless_session :: session where
  "frameless_session = example_session\<lparr>homePageDocument := example_document\<lparr>loadingAnims := []\<rparr>\<rparr>"

section \<open>Base64 and the 32-bit operators\<close>

text \<open>The sextets of a byte sequence, without padding.\<close>

fun sextets_of :: "nat list \<Rightarrow> nat list" where
  "sextets_of (a # b # c # rest) =
     (a div 4) # ((a mod 4) * 16 + b div 16) # ((b mod 16) * 4 + c div 64) # (c mod 64) # sextets_of rest"
| "sextets_of [a, b] = [a div 4, (a mod 4) * 16 + b div 16, (b mod 16) * 4]"
| "sextets_of [a] = [a div 4, (a mod 4) * 16]"
| "sextets_of [] = []"

lemma b64_alphabet_length: "length b64_alphabet = 64"
  by (simp add: b64_alphabet_def)

lemma b64_alphabet_distinct: "distinct b64_alphabet"
  by (simp add: b64_alphabet_def)

lemma b64_value_char: "n < 64 \<Longrightarrow> b64_value (b64_char n) = Some n"
  unfolding b64_value_def b64_char_def
  using map_of_zip_nth [of b64_alphabet "[0 ..< 64]" n]
  by (simp add: b64_alphabet_length b64_alphabet_distinct)

lemma b64_char_in: "n < 64 \<Longrightarrow> b64_char n \<in> set b64_alphabet"
  by (simp add: b64_char_def b64_alphabet_length)

lemma b64_char_not_pad: "n < 64 \<Longrightarrow> b64_char n \<noteq> CHR ''=''"
proof -
  assume "n < 64"
  then have "b64_char n \<in> set b64_alphabet" by (rule b64_char_in)
  moreover have "CHR ''='' \<notin> set b64_alphabet" by (simp add: b64_alphabet_def)
  ultimately show ?thesis by auto
qed

lemma b64_char_not_ws: "n < 64 \<Longrightarrow> \<not> ascii_whitespace (b64_char n)"
proof -
  assume "n < 64"
  then have "b64_char n \<in> set b64_alphabet" by (rule b64_char_in)
  moreover have "\<forall>c \<in> set b64_alphabet. \<not> ascii_whitespace c"
    by (simp add: b64_alphabet_def ascii_whitespace_def)
  ultimately show ?thesis by auto
qed

lemma sextets_of_bound: "list_all (\<lambda>b. b < 256) ns \<Longrightarrow> list_all (\<lambda>x. x < 64) (sextets_of ns)"
  by (induction ns rule: sextets_of.induct) (auto simp: div_less_iff_less_mult)

lemma sextets_of_length: "length (sextets_of ns) mod 4 \<noteq> 1"
  by (induction ns rule: sextets_of.induct) auto

lemma filter_b64_groups:
  "list_all (\<lambda>b. b < 256) ns \<Longrightarrow>
   filter (\<lambda>c. c \<noteq> CHR ''='') (b64_groups ns) = map b64_char (sextets_of ns)"
  by (induction ns rule: sextets_of.induct) (auto simp: b64_char_not_pad div_less_iff_less_mult)

lemma sextets_bytes_of: "list_all (\<lambda>b. b < 256) ns \<Longrightarrow> sextets_bytes (sextets_of ns) = ns"
  by (induction ns rule: sextets_of.induct) auto


lemma strip_padding_id: "CHR ''='' \<notin> set s \<Longrightarrow> strip_padding s = s"
proof -
  assume a: "CHR ''='' \<notin> set s"
  have "s \<noteq> [] \<Longrightarrow> last s \<noteq> CHR ''=''"
    using a last_in_set by metis
  then show ?thesis
    by (auto simp: strip_padding_def)
qed

lemma unat_bytes_bound: "list_all (\<lambda>b. b < 256) (map unat (bs :: byte list))"
proof -
  have "unat b < 256" for b :: byte
    using unsigned_less [of b, where ?'a = nat] by simp
  then show ?thesis by (simp add: list_all_iff)
qed

lemma decode_sextet_chars:
  assumes "list_all (\<lambda>x. x < 64) xs" and "length xs mod 4 \<noteq> 1"
  shows "decodeBase64 (map b64_char xs) = Inr (map of_nat (sextets_bytes xs))"
proof -
  let ?s = "map b64_char xs"
  have in64: "\<And>x. x \<in> set xs \<Longrightarrow> x < 64"
    using assms(1) by (simp add: list_all_iff)
  have ws: "filter (\<lambda>c. \<not> ascii_whitespace c) ?s = ?s"
    by (rule filter_True) (auto simp: b64_char_not_ws in64)
  have "CHR ''='' \<notin> set ?s"
    using b64_char_not_pad in64 by fastforce
  then have pad: "strip_padding ?s = ?s"
    by (rule strip_padding_id)
  have ok: "\<not> list_ex (\<lambda>c. b64_value c = None) ?s"
    by (auto simp: list_ex_iff b64_value_char in64)
  have vals': "map ((\<lambda>c. the (b64_value c)) \<circ> b64_char) xs = xs"
    by (rule map_idI) (simp add: b64_value_char in64)
  show ?thesis
    using assms(2) ok by (simp add: decodeBase64_def ws pad vals')
qed

lemma decodeBase64_encodeBase64:
  "decodeBase64 (filter (\<lambda>c. c \<noteq> CHR ''='') (encodeBase64 bs)) = Inr bs"
proof -
  let ?ns = "map unat bs"
  have b: "list_all (\<lambda>b. b < 256) ?ns" by (rule unat_bytes_bound)
  have "filter (\<lambda>c. c \<noteq> CHR ''='') (encodeBase64 bs) = map b64_char (sextets_of ?ns)"
    by (simp only: encodeBase64_def filter_b64_groups [OF b])
  moreover have "decodeBase64 (map b64_char (sextets_of ?ns)) = Inr (map of_nat (sextets_bytes (sextets_of ?ns)))"
    by (rule decode_sextet_chars) (simp_all only: sextets_of_bound [OF b] sextets_of_length not_False_eq_True)
  moreover have "map of_nat (sextets_bytes (sextets_of ?ns)) = bs"
    by (simp add: sextets_bytes_of [OF b] comp_def)
  ultimately show ?thesis by simp
qed


lemma toUint8_js_xor: "toUint8 (js_xor a (uint r)) = word_of_int a XOR (r :: byte)"
  unfolding toUint8_def js_xor_def toInt32_def
  by (rule bit_word_eqI) (auto simp: bit_simps)

lemma time_byte:
  assumes "k \<le> 24"
  shows "(word_of_int (js_and (js_sar t k) 255) :: byte) = word_of_int (drop_bit k (take_bit 32 t))"
proof -
  have k: "k mod 32 = k" using assms by simp
  have m: "toInt32 255 = mask 8"
    by (simp add: toInt32_def mask_eq_exp_minus_1 signed_take_bit_eq_take_bit_minus [of 31 255]
        bit_iff_odd take_bit_eq_mod)
  show ?thesis
    unfolding js_and_def js_sar_def k m
    unfolding toInt32_def
    using assms
    by (intro bit_word_eqI) (auto simp: bit_simps)
qed

lemma time_byte0: "(word_of_int (js_and t 255) :: byte) = word_of_int (take_bit 32 t)"
proof -
  have m: "toInt32 255 = mask 8"
    by (simp add: toInt32_def mask_eq_exp_minus_1 signed_take_bit_eq_take_bit_minus [of 31 255]
        bit_iff_odd take_bit_eq_mod)
  show ?thesis
    unfolding js_and_def m
    unfolding toInt32_def
    by (intro bit_word_eqI) (auto simp: bit_simps)
qed

lemma masked_timeNowBytes:
  "map (\<lambda>item. toUint8 (js_xor item (uint r))) (timeNowBytes t) = map (\<lambda>b. b XOR r) (timeBytes t)"
proof -
  have h0: "(word_of_int (js_and t 255) :: byte) = word_of_int (t mod 2 ^ 32)"
    by (simp only: time_byte0 take_bit_eq_mod)
  have h1: "(word_of_int (js_and (js_sar t 8) 255) :: byte) = word_of_int (t mod 2 ^ 32 div 2 ^ 8)"
    by (simp only: time_byte [of 8] take_bit_eq_mod drop_bit_eq_div)
  have h2: "(word_of_int (js_and (js_sar t 16) 255) :: byte) = word_of_int (t mod 2 ^ 32 div 2 ^ 16)"
    by (simp only: time_byte [of 16] take_bit_eq_mod drop_bit_eq_div)
  have h3: "(word_of_int (js_and (js_sar t 24) 255) :: byte) = word_of_int (t mod 2 ^ 32 div 2 ^ 24)"
    by (simp only: time_byte [of 24] take_bit_eq_mod drop_bit_eq_div)
  show ?thesis
    unfolding timeNowBytes_def timeBytes_def Let_def list.map toUint8_js_xor h1 h2 h3
    unfolding h0 ..
qed

lemma masked_bytes:
  "map (\<lambda>item. toUint8 (js_xor item (uint r))) (map uint bs) = map (\<lambda>b. b XOR r) (bs :: byte list)"
  by (simp add: toUint8_js_xor)

lemma encodeTransaction_masked:
  "encodeTransaction sha method path kb animKey timeNow (uint r) =
   strip_equals (encodeBase64 (masked r (payload sha method path kb animKey timeNow)))"
proof -
  let ?f = "\<lambda>item. toUint8 (js_xor item (uint r))"
  let ?h = "sha (textEncode (method @ ''!'' @ path @ ''!'' @ numberToString timeNow @ ''obfiowerehiring'' @ animKey))"
  have tag: "?f ADDITIONAL_RANDOM_NUMBER = 3 XOR r"
    by (simp add: toUint8_js_xor ADDITIONAL_RANDOM_NUMBER_def)
  have body: "map ?f (map uint kb @ timeNowBytes timeNow @ take 16 (map uint ?h) @ [ADDITIONAL_RANDOM_NUMBER])
      = map (\<lambda>b. b XOR r) (kb @ timeBytes timeNow @ take 16 ?h @ [3])"
    by (simp only: map_append masked_bytes masked_timeNowBytes take_map [symmetric] list.map tag)
  have head: "toUint8 (uint r) = r"
    by (simp add: toUint8_def)
  have "map toUint8 (uint r # map (\<lambda>item. js_xor item (uint r))
          (map uint kb @ timeNowBytes timeNow @ take 16 (map uint ?h) @ [ADDITIONAL_RANDOM_NUMBER]))
        = masked r (payload sha method path kb animKey timeNow)"
    unfolding masked_def payload_def list.map head body [symmetric] map_map comp_def ..
  then show ?thesis
    unfolding encodeTransaction_def strip_equals_def Let_def DEFAULT_KEYWORD_def by simp
qed

lemma le_digits:
  fixes t a b c r0 r1 r2 :: int
  assumes "t = 256 * a + r0" and "a = 256 * b + r1" and "b = 256 * c + r2"
  shows "r0 + 256 * (r1 + 256 * (r2 + 256 * c)) = t"
  using assms by simp

lemma le_decode_timeBytes:
  assumes "0 \<le> t" and "t < 2 ^ 32"
  shows "le_decode (timeBytes t) = t"
proof -
  define a where "a = t div 256"
  define b where "b = a div 256"
  define c where "c = b div 256"
  have m: "t mod 2 ^ 32 = t" using assms by simp
  have u: "uint (word_of_int x :: byte) = x mod 256" for x
    by (simp add: uint_word_of_int)
  have b_eq: "t div 65536 = b"
    unfolding b_def a_def using zdiv_zmult2_eq [of 256 t 256] by simp
  have c_eq: "t div 16777216 = c"
    unfolding c_def b_eq [symmetric] using zdiv_zmult2_eq [of 256 t 65536] by simp
  have "c < 256" using assms unfolding c_eq [symmetric] by simp
  moreover have "0 \<le> c" using assms unfolding c_eq [symmetric] by simp
  ultimately have top: "c mod 256 = c" by simp
  have "t mod 256 + 256 * (a mod 256 + 256 * (b mod 256 + 256 * c)) = t"
    by (rule le_digits [of t a _ b _ c]) (simp_all add: a_def b_def c_def)
  then show ?thesis
    unfolding le_decode_def timeBytes_def Let_def m
    by (simp add: u a_def [symmetric] b_eq c_eq top)
qed

lemma unmask_masked: "unmask (masked m p) = p"
  by (simp add: unmask_def masked_def comp_def word_bw_assocs)

section \<open>The example session\<close>

lemma example_initialize:
  "initialize example_host (new_session example_document) = (Inr (), example_session)"
  by code_simp

lemma example_initialized: "isInitialized example_session"
  by (simp add: example_session_def)

lemma example_resolveKey: "resolveKey example_session None None = Inr ''AAECAwQFBgcICQoLDA0ODw==''"
  by (simp add: resolveKey_def example_session_def)

lemma example_resolveKeyBytes:
  "resolveKeyBytes example_session ''AAECAwQFBgcICQoLDA0ODw=='' = Inr example_keyBytes"
  by code_simp

lemma example_resolveAnimationKey:
  "resolveAnimationKey example_host example_session example_keyBytes None None = Inr ''6600''"
  by (simp add: resolveAnimationKey_def example_session_def)

section \<open>generateTransactionId\<close>

lemma generateTransactionId_resolved:
  assumes "isInitialized s"
    and "resolveKey s response keyArg = Inr k"
    and "resolveKeyBytes s k = Inr kb"
    and "resolveAnimationKey h s kb response animationKeyArg = Inr animKey"
  shows "generateTransactionId h w method path response keyArg animationKeyArg timeNowArg s =
     (Inr (encodeTransaction (sha256 h) method path kb animKey (resolveTimeNow w timeNowArg)
             (uint (random_byte w))), s)"
  using assms by (simp add: generateTransactionId_def)

text \<open>
  C1.  On an initialized session, when the key, the key bytes and the animation key
  resolve, the identifier returned by \<open>generateTransactionId\<close> is the base64 encoding,
  with every \<open>=\<close> removed, of the random byte followed by the payload XOR-ed bytewise
  with it; the payload is the key bytes, the four time bytes, the first 16 bytes of the
  SHA-256 of the message and the byte 3.  The code computes it with 32-bit operators on
  numbers and stores the result into a \<open>Uint8Array\<close>.
\<close>

theorem generateTransactionId_identifier:
  assumes "isInitialized s"
    and "resolveKey s response keyArg = Inr k"
    and "resolveKeyBytes s k = Inr kb"
    and "resolveAnimationKey h s kb response animationKeyArg = Inr animKey"
  shows "fst (generateTransactionId h w method path response keyArg animationKeyArg timeNowArg s) =
     Inr (strip_equals (encodeBase64 (masked (random_byte w)
            (payload (sha256 h) method path kb animKey (resolveTimeNow w timeNowArg)))))"
  by (simp add: generateTransactionId_resolved [OF assms] encodeTransaction_masked)

lemma example_identifier:
  "strip_equals (encodeBase64 (masked 0x42
     (payload (sha256 example_host) ''GET'' ''/i/api'' example_keyBytes ''6600'' 1000))) =
   ''QkJDQEFGR0RFSktISU5PTE2qQUJCYGFmZ2RlamtoaW5vbG1yc0E''"
  by code_simp

theorem generateTransactionId_identifier_witness:
  "fst (generateTransactionId example_host example_world ''GET'' ''/i/api'' None None None
          (Some 1000) example_session) =
     Inr (strip_equals (encodeBase64 (masked 0x42
            (payload (sha256 example_host) ''GET'' ''/i/api'' example_keyBytes ''6600'' 1000)))) \<and>
   fst (generateTransactionId example_host example_world ''GET'' ''/i/api'' None None None
          (Some 1000) example_session) =
     Inr ''QkJDQEFGR0RFSktISU5PTE2qQUJCYGFmZ2RlamtoaW5vbG1yc0E''"
  using generateTransactionId_identifier [OF example_initialized example_resolveKey
      example_resolveKeyBytes example_resolveAnimationKey,
      of example_world "''GET''" "''/i/api''" "Some 1000"]
  by (simp add: example_world_def resolveTimeNow_def example_identifier)

lemma generateTransactionId_returns:
  assumes "generateTransactionId h w method path response keyArg animationKeyArg timeNowArg s = (Inr ident, s')"
  shows "\<exists>k kb animKey.
      isInitialized s \<and>
      resolveKey s response keyArg = Inr k \<and> resolveKeyBytes s k = Inr kb \<and>
      resolveAnimationKey h s kb response animationKeyArg = Inr animKey \<and>
      ident = encodeTransaction (sha256 h) method path kb animKey (resolveTimeNow w timeNowArg)
                (uint (random_byte w))"
  using assms
  by (auto simp: generateTransactionId_def Let_def split: if_splits sum.splits)

lemma payload_parts:
  "take (length kb) (payload sha method path kb animKey t) = kb"
  "take 4 (drop (length kb) (payload sha method path kb animKey t)) = timeBytes t"
  by (simp_all add: payload_def timeBytes_def Let_def)

text \<open>
  C2.  For every identifier the method returns, base64-decoding it and XOR-ing every
  byte from index 1 onward with byte 0 gives back the payload: the resolved key bytes,
  the time bytes, the 16 digest bytes and the byte 3.  The leading bytes are the key bytes,
  whatever their number, and the four bytes after them, read as a little-endian integer,
  are the time of the call when it lies in \<open>[0, 2 ^ 32)\<close>.
\<close>

theorem transaction_id_round_trip:
  assumes "generateTransactionId h w method path response keyArg animationKeyArg timeNowArg s = (Inr ident, s')"
  shows "\<exists>k kb animKey out.
      resolveKey s response keyArg = Inr k \<and> resolveKeyBytes s k = Inr kb \<and>
      resolveAnimationKey h s kb response animationKeyArg = Inr animKey \<and>
      decodeBase64 ident = Inr out \<and>
      unmask out = payload (sha256 h) method path kb animKey (resolveTimeNow w timeNowArg) \<and>
      take (length kb) (unmask out) = kb \<and>
      (0 \<le> resolveTimeNow w timeNowArg \<and> resolveTimeNow w timeNowArg < 2 ^ 32 \<longrightarrow>
         le_decode (take 4 (drop (length kb) (unmask out))) = resolveTimeNow w timeNowArg)"
proof -
  let ?t = "resolveTimeNow w timeNowArg"
  from generateTransactionId_returns [OF assms] obtain k kb animKey where
    r: "resolveKey s response keyArg = Inr k" "resolveKeyBytes s k = Inr kb"
       "resolveAnimationKey h s kb response animationKeyArg = Inr animKey"
    and i: "ident = encodeTransaction (sha256 h) method path kb animKey ?t (uint (random_byte w))"
    by blast
  let ?p = "payload (sha256 h) method path kb animKey ?t"
  let ?out = "masked (random_byte w) ?p"
  have d: "decodeBase64 ident = Inr ?out"
    unfolding i encodeTransaction_masked strip_equals_def by (rule decodeBase64_encodeBase64)
  have u: "unmask ?out = ?p" by (rule unmask_masked)
  have t: "0 \<le> ?t \<and> ?t < 2 ^ 32 \<longrightarrow> le_decode (take 4 (drop (length kb) ?p)) = ?t"
    using le_decode_timeBytes [of ?t] by (simp only: payload_parts) simp
  show ?thesis
    using r d u t payload_parts(1) [of kb "sha256 h" "method" path animKey ?t] by (intro exI [of _ k] exI [of _ kb] exI [of _ animKey] exI [of _ ?out]) (simp only: simp_thms)
qed

lemma example_generate:
  "generateTransactionId example_host example_world ''GET'' ''/i/api'' None None None (Some 1000) example_session
     = (Inr ''QkJDQEFGR0RFSktISU5PTE2qQUJCYGFmZ2RlamtoaW5vbG1yc0E'', example_session)"
  by code_simp

lemma example_timeNow: "resolveTimeNow example_world (Some 1000) = 1000"
  by (simp add: resolveTimeNow_def)

theorem transaction_id_round_trip_witness:
  "\<exists>out. decodeBase64 ''QkJDQEFGR0RFSktISU5PTE2qQUJCYGFmZ2RlamtoaW5vbG1yc0E'' = Inr out \<and>
     unmask out = payload (sha256 example_host) ''GET'' ''/i/api'' example_keyBytes ''6600'' 1000 \<and>
     take 16 (unmask out) = example_keyBytes \<and>
     le_decode (take 4 (drop 16 (unmask out))) = 1000"
proof -
  from transaction_id_round_trip [OF example_generate] obtain k kb animKey out where
    k: "resolveKey example_session None None = Inr k"
    and kb: "resolveKeyBytes example_session k = Inr kb"
    and a: "resolveAnimationKey example_host example_session kb None None = Inr animKey"
    and d: "decodeBase64 ''QkJDQEFGR0RFSktISU5PTE2qQUJCYGFmZ2RlamtoaW5vbG1yc0E'' = Inr out"
    and u: "unmask out = payload (sha256 example_host) ''GET'' ''/i/api'' kb animKey
              (resolveTimeNow example_world (Some 1000))"
    and p: "take (length kb) (unmask out) = kb"
    and t: "0 \<le> resolveTimeNow example_world (Some 1000) \<and>
            resolveTimeNow example_world (Some 1000) < 2 ^ 32 \<longrightarrow>
            le_decode (take 4 (drop (length kb) (unmask out))) = resolveTimeNow example_world (Some 1000)"
    by blast
  from k have k': "k = ''AAECAwQFBgcICQoLDA0ODw==''"
    by (simp add: example_resolveKey)
  from kb have kb': "kb = example_keyBytes"
    by (simp add: k' example_resolveKeyBytes)
  from a have a': "animKey = ''6600''"
    by (simp add: kb' example_resolveAnimationKey)
  have len: "length example_keyBytes = 16"
    by (simp add: example_keyBytes_def)
  show ?thesis
    using d u p t unfolding kb' a' example_timeNow len by (intro exI [of _ out]) simp
qed

text \<open>
  C5.  A supplied time override of \<open>0\<close> is falsy for the \<open>||\<close> of line 356, so the
  call takes the clock's time instead of the override: with the clock of the example at
  1700000000000 ms the time of the call is 17075600, and the call returns what a call
  without the argument returns.
\<close>

theorem timeNow_override_zero:
  "resolveTimeNow example_world (Some 0) = 17075600 \<and>
   generateTransactionId example_host example_world ''GET'' ''/i/api'' None None None (Some 0) example_session =
   generateTransactionId example_host example_world ''GET'' ''/i/api'' None None None None example_session"
  by (simp add: resolveTimeNow_def generateTransactionId_def example_world_def)

text \<open>Every other supplied value is the time of the call, and a call without the
  argument takes \<open>floor((now - 1682924400000) / 1000)\<close>.\<close>

lemma resolveTimeNow_override: "t \<noteq> 0 \<Longrightarrow> resolveTimeNow w (Some t) = t"
  by (simp add: resolveTimeNow_def)

lemma resolveTimeNow_default: "resolveTimeNow w None = (now_millis w - 1682924400000) div 1000"
  by (simp add: resolveTimeNow_def)

text \<open>
  C8.  \<open>generateTransactionId\<close> leaves the session as it found it, whatever the
  arguments: the key, key bytes and animation key computed for a call are local to it.
\<close>

theorem generateTransactionId_session_unchanged:
  "snd (generateTransactionId h w method path response keyArg animationKeyArg timeNowArg s) = s"
  by (simp add: generateTransactionId_def Let_def split: sum.splits)

text \<open>
  C9.  Two calls on the same session with the same method, path and overrides return the
  same result when the random byte and the time of the call are the same, whatever else
  differs between the two moments (the clock).
\<close>

theorem generateTransactionId_deterministic:
  assumes "random_byte w1 = random_byte w2"
    and "resolveTimeNow w1 t1 = resolveTimeNow w2 t2"
  shows "generateTransactionId h w1 method path response keyArg animationKeyArg t1 s =
         generateTransactionId h w2 method path response keyArg animationKeyArg t2 s"
  unfolding generateTransactionId_def assms ..

theorem generateTransactionId_deterministic_witness:
  "generateTransactionId example_host example_world ''GET'' ''/i/api'' None None None (Some 1000) example_session =
   generateTransactionId example_host (example_world\<lparr>now_millis := 1800000000000\<rparr>) ''GET'' ''/i/api''
     None None None (Some 1000) example_session"
proof -
  have r: "random_byte example_world = random_byte (example_world\<lparr>now_millis := 1800000000000\<rparr>)"
    by simp
  have t: "resolveTimeNow example_world (Some 1000) =
           resolveTimeNow (example_world\<lparr>now_millis := 1800000000000\<rparr>) (Some 1000)"
    by (simp add: resolveTimeNow_def)
  show ?thesis
    by (rule generateTransactionId_deterministic [OF r t])
qed

section \<open>getAnimationKey\<close>

lemma js_rem_nonneg: "0 \<le> a \<Longrightarrow> 0 < b \<Longrightarrow> js_rem a b = a mod b"
  by (cases "a = 0") (simp_all add: js_rem_def)


lemma byte_rem_Num:
  assumes "num_rem (byteToNumber (js_at kb idx)) m = Num v" and "0 < m"
  shows "\<exists>i. idx = Num (int i) \<and> i < length kb \<and> v = uint (kb ! i) mod m"
proof (cases idx)
  case NaN
  with assms show ?thesis
    by (simp add: js_at_def byteToNumber_def num_rem_def)
next
  case (Num j)
  with assms have r: "0 \<le> j" "nat j < length kb"
    by (auto simp: js_at_def byteToNumber_def num_rem_def split: if_splits)
  with assms Num have "v = uint (kb ! nat j) mod m"
    by (simp add: js_at_def byteToNumber_def num_rem_def js_rem_nonneg)
  with r Num show ?thesis
    by (intro exI [of _ "nat j"]) simp
qed

lemma js_at_Some:
  "js_at xs idx = Some v \<Longrightarrow> \<exists>j. idx = Num j \<and> 0 \<le> j \<and> nat j < length xs \<and> v = xs ! nat j"
  by (cases idx) (auto simp: js_at_def split: if_splits)




lemma getAnimationKey_Inr:
  assumes "getAnimationKey h s kb response = Inr result"
  shows "\<exists>ri idxs table row.
      DEFAULT_ROW_INDEX s = Some ri \<and> DEFAULT_KEY_BYTES_INDICES s = Some idxs \<and>
      get2dArray s kb response None = Inr table \<and>
      js_at table (num_rem (byteToNumber (js_at kb ri)) 16) = Some row \<and>
      result = animate h row (num_div (frameTimeOf kb idxs) 4096)"
  using assms
  by (auto simp: getAnimationKey_def Let_def split: option.splits sum.splits)



lemma example_getAnimationKey:
  "getAnimationKey example_host example_session example_keyBytes None = Inr ''6600''"
  by code_simp




lemma get2dArray_frames:
  assumes "getFrames s response \<noteq> []"
    and "get2dArray s kb response None = Inr table"
  shows "5 < length kb \<and> nat (uint (kb ! 5) mod 4) < length (getFrames s response) \<and>
         framePathTable (getFrames s response ! nat (uint (kb ! 5) mod 4)) = Inr table"
proof -
  from assms obtain frame where
    f: "js_at (getFrames s response) (num_rem (byteToNumber (js_at kb (Num 5))) 4) = Some frame"
    and t: "framePathTable frame = Inr table"
    by (auto simp: get2dArray_def split: option.splits)
  from js_at_Some [OF f] obtain j where
    j: "num_rem (byteToNumber (js_at kb (Num 5))) 4 = Num j" "0 \<le> j"
       "nat j < length (getFrames s response)" "frame = getFrames s response ! nat j"
    by blast
  from byte_rem_Num [OF j(1)] obtain i where
    i: "Num 5 = Num (int i)" "i < length kb" "j = uint (kb ! i) mod 4"
    by auto
  from i(1) have "i = 5" by simp
  with i j t show ?thesis by simp
qed

lemma example_frames: "getFrames example_session None \<noteq> []"
  by (simp add: getFrames_def doc_or_def example_session_def example_document_def)

lemma example_table:
  "framePathTable (getFrames example_session None ! nat (uint (example_keyBytes ! 5) mod 4)) =
     Inr [[Num 10, Num 20, Num 30, Num 40, Num 50, Num 60, Num 128, Num 5, Num 6, Num 7, Num 8],
          [Num 1, Num 2, Num 3, Num 4, Num 5, Num 6, Num 7, Num 8, Num 9], [], [Num 77]]"
  by code_simp

lemma example_byte5: "nat (uint (example_keyBytes ! 5) mod 4) = 1"
  by (simp add: example_keyBytes_def)

lemma example_byte0: "nat (uint (example_keyBytes ! 0) mod 16) = 0"
  by (simp add: example_keyBytes_def)

text \<open>
  C3, as the code has it.  On a page with animation frames, the row that
  \<open>getAnimationKey\<close> passes to \<open>animate\<close> is the row at index
  \<open>keyBytes[DEFAULT_ROW_INDEX] mod 16\<close> of the table parsed from the frame element at
  index \<open>keyBytes[5] mod 4\<close>: the byte at offset 5 selects the frame element, not the row.
\<close>

theorem getAnimationKey_frame_row:
  assumes "getFrames s response \<noteq> []"
    and "getAnimationKey h s kb response = Inr result"
  shows "\<exists>r idxs table row.
      DEFAULT_ROW_INDEX s = Some (Num (int r)) \<and> DEFAULT_KEY_BYTES_INDICES s = Some idxs \<and>
      r < length kb \<and> 5 < length kb \<and>
      framePathTable (getFrames s response ! nat (uint (kb ! 5) mod 4)) = Inr table \<and>
      nat (uint (kb ! r) mod 16) < length table \<and>
      row = table ! nat (uint (kb ! r) mod 16) \<and>
      result = animate h row (num_div (frameTimeOf kb idxs) 4096)"
proof -
  from getAnimationKey_Inr [OF assms(2)] obtain ri idxs table row where
    a: "DEFAULT_ROW_INDEX s = Some ri" "DEFAULT_KEY_BYTES_INDICES s = Some idxs"
       "get2dArray s kb response None = Inr table"
       "js_at table (num_rem (byteToNumber (js_at kb ri)) 16) = Some row"
       "result = animate h row (num_div (frameTimeOf kb idxs) 4096)"
    by blast
  from js_at_Some [OF a(4)] obtain j where
    j: "num_rem (byteToNumber (js_at kb ri)) 16 = Num j" "0 \<le> j" "nat j < length table"
       "row = table ! nat j"
    by blast
  from byte_rem_Num [OF j(1)] obtain r where
    r: "ri = Num (int r)" "r < length kb" "j = uint (kb ! r) mod 16"
    by auto
  from get2dArray_frames [OF assms(1) a(3)] a j r show ?thesis
    by (intro exI [of _ r] exI [of _ idxs] exI [of _ table] exI [of _ row]) simp
qed

theorem getAnimationKey_frame_row_witness:
  "getAnimationKey example_host example_session example_keyBytes None =
     Inr (animate example_host
            [Num 10, Num 20, Num 30, Num 40, Num 50, Num 60, Num 128, Num 5, Num 6, Num 7, Num 8]
            (num_div (frameTimeOf example_keyBytes [Num 5, Num 7]) 4096))"
proof -
  from getAnimationKey_frame_row [OF example_frames example_getAnimationKey]
  obtain r idxs table row where
    a: "DEFAULT_ROW_INDEX example_session = Some (Num (int r))"
       "DEFAULT_KEY_BYTES_INDICES example_session = Some idxs"
       "framePathTable (getFrames example_session None ! nat (uint (example_keyBytes ! 5) mod 4)) = Inr table"
       "row = table ! nat (uint (example_keyBytes ! r) mod 16)"
       "''6600'' = animate example_host row (num_div (frameTimeOf example_keyBytes idxs) 4096)"
    by blast
  from a(1) have r: "r = 0" by (simp add: example_session_def)
  from a(2) have i: "idxs = [Num 5, Num 7]" by (simp add: example_session_def)
  from a(3) have t: "table = [[Num 10, Num 20, Num 30, Num 40, Num 50, Num 60, Num 128, Num 5, Num 6, Num 7, Num 8],
          [Num 1, Num 2, Num 3, Num 4, Num 5, Num 6, Num 7, Num 8, Num 9], [], [Num 77]]"
    by (simp only: example_table sum.inject)
  from a(4) have "row = [Num 10, Num 20, Num 30, Num 40, Num 50, Num 60, Num 128, Num 5, Num 6, Num 7, Num 8]"
    by (simp add: r t example_byte0)
  with a(5) i show ?thesis
    by (simp add: example_getAnimationKey)
qed

text \<open>In the example \<open>keyBytes[5] mod 4 = 1\<close> and \<open>keyBytes[0] mod 16 = 0\<close>: the row at
  index 1 of the parsed table is not the row that is animated.\<close>

theorem frame_row_not_at_frame_index:
  "framePathTable (getFrames example_session None ! nat (uint (example_keyBytes ! 5) mod 4)) =
     Inr [[Num 10, Num 20, Num 30, Num 40, Num 50, Num 60, Num 128, Num 5, Num 6, Num 7, Num 8],
          [Num 1, Num 2, Num 3, Num 4, Num 5, Num 6, Num 7, Num 8, Num 9], [], [Num 77]] \<and>
   nat (uint (example_keyBytes ! 5) mod 4) = 1 \<and>
   getAnimationKey example_host example_session example_keyBytes None \<noteq>
     Inr (animate example_host [Num 1, Num 2, Num 3, Num 4, Num 5, Num 6, Num 7, Num 8, Num 9]
            (num_div (frameTimeOf example_keyBytes [Num 5, Num 7]) 4096))"
proof -
  have "animate example_host [Num 1, Num 2, Num 3, Num 4, Num 5, Num 6, Num 7, Num 8, Num 9]
            (num_div (frameTimeOf example_keyBytes [Num 5, Num 7]) 4096) = ''5700''"
    by code_simp
  then have "getAnimationKey example_host example_session example_keyBytes None \<noteq>
     Inr (animate example_host [Num 1, Num 2, Num 3, Num 4, Num 5, Num 6, Num 7, Num 8, Num 9]
            (num_div (frameTimeOf example_keyBytes [Num 5, Num 7]) 4096))"
    by (simp add: example_getAnimationKey)
  with example_table example_byte5 show ?thesis
    by (intro conjI)
qed

text \<open>
  C7.  A page without animation frames gives the table \<open>[[]]\<close>, which has a row at
  index 0: with \<open>keyBytes[0] mod 16 = 0\<close> the empty row passes the check
  \<open>!arr || !arr[rowIndex]\<close> (an empty array is truthy), \<open>animate\<close> is called on it, and
  \<open>initialize\<close> succeeds.
\<close>

theorem no_frames_row_zero_accepted:
  "getFrames frameless_session None = [] \<and>
   get2dArray frameless_session example_keyBytes None None = Inr [[]] \<and>
   getAnimationKey example_host frameless_session example_keyBytes None =
     Inr (animate example_host [] (Some (40 / 4096))) \<and>
   fst (initialize example_host (new_session (example_document\<lparr>loadingAnims := []\<rparr>))) = Inr ()"
  by code_simp

text \<open>For every other row index the derivation fails with the invalid-frame-data error.\<close>

lemma get2dArray_no_frames:
  "getFrames s response = [] \<Longrightarrow> get2dArray s kb response None = Inr [[]]"
  by (simp add: get2dArray_def)

lemma getAnimationKey_no_frames:
  assumes "getFrames s response = []"
    and "DEFAULT_ROW_INDEX s = Some ri" and "DEFAULT_KEY_BYTES_INDICES s = Some idxs"
  shows "getAnimationKey h s kb response =
     (if num_rem (byteToNumber (js_at kb ri)) 16 = Num 0
      then Inr (animate h [] (num_div (frameTimeOf kb idxs) 4096))
      else Inl InvalidFrameData)"
proof (cases "num_rem (byteToNumber (js_at kb ri)) 16")
  case NaN
  then show ?thesis
    using assms by (simp add: getAnimationKey_def get2dArray_no_frames js_at_def)
next
  case (Num j)
  then show ?thesis
    using assms by (cases "j = 0") (auto simp: getAnimationKey_def get2dArray_no_frames js_at_def)
qed

section \<open>The frame-table parse\<close>

lemma is_digit_not_whitespace: "is_digit c \<Longrightarrow> \<not> js_whitespace c"
  by (auto simp: is_digit_def js_whitespace_def Let_def)



















lemma is_digit_not_sign: "is_digit c \<Longrightarrow> c \<noteq> CHR ''-'' \<and> c \<noteq> CHR ''+''"
  by (auto simp: is_digit_def)

lemma parseInt10_digits:
  assumes "ds \<noteq> []" and "list_all is_digit ds"
  shows "parseInt10 ds = Num (int (digits_value ds))"
proof -
  from assms obtain d rest where ds: "ds = d # rest" and d: "is_digit d"
    by (cases ds) auto
  have w: "dropWhile js_whitespace ds = ds"
    using ds d by (simp add: is_digit_not_whitespace)
  have t: "takeWhile is_digit ds = ds"
    using assms(2) by (simp add: list_all_iff)
  have h: "hd ds = d"
    using ds by simp
  show ?thesis
    unfolding parseInt10_def w Let_def h
    using assms(1) is_digit_not_sign [OF d] by (simp add: t)
qed






section \<open>getIndices\<close>

lemma indices_match_at_digits:
  "indices_match_at s = Some (cap, rest) \<Longrightarrow> cap \<noteq> [] \<and> length cap \<le> 2 \<and> list_all is_digit cap"
  by (auto simp: indices_match_at_def split: list.splits if_splits)

lemma indices_exec_all_digits:
  "list_all (\<lambda>cap. cap \<noteq> [] \<and> length cap \<le> 2 \<and> list_all is_digit cap) (indices_exec_all s)"
proof (induction s rule: indices_exec_all.induct)
  case 1
  then show ?case by simp
next
  case (2 c cs)
  show ?case
  proof (cases "indices_match_at (c # cs)")
    case None
    with 2 show ?thesis by simp
  next
    case (Some m)
    obtain cap rest where m: "m = (cap, rest)" by (cases m)
    with Some 2 indices_match_at_digits [of "c # cs" cap rest] show ?thesis by simp
  qed
qed

text \<open>
  C4.  \<open>getIndices\<close> fails with the indices-not-found error in exactly three cases: the
  marker of the auxiliary script is absent from the markup, the fetch of the script fails,
  or the script text has no match of the index pattern.  Otherwise it returns the first
  matched literal as the row index and the remaining ones, in order, as the key-byte
  indices; every literal is one or two digits and is its decimal value.
\<close>

theorem getIndices_outcome:
  "getIndices h s docArg =
     (case ondemand_exec (outerHTML (doc_or docArg (homePageDocument s))) of
        None \<Rightarrow> Inl IndicesNotFound
      | Some version \<Rightarrow>
          (case fetchText h (onDemandFileUrl version) of
             None \<Rightarrow> Inl IndicesNotFound
           | Some script \<Rightarrow>
               (case indices_exec_all script of
                  [] \<Rightarrow> Inl IndicesNotFound
                | first # rest \<Rightarrow>
                    Inr (Num (int (digits_value first)), map (\<lambda>cap. Num (int (digits_value cap))) rest))))"
proof -
  have p: "map parseInt10 (indices_exec_all t) = map (\<lambda>cap. Num (int (digits_value cap))) (indices_exec_all t)" for t
    using indices_exec_all_digits [of t]
    by (intro map_cong refl parseInt10_digits) (auto simp: list_all_iff)
  have c: "(case xs of [] \<Rightarrow> Inl IndicesNotFound | first # rest \<Rightarrow> Inr (f first, map f rest)) =
        (if xs = [] then Inl IndicesNotFound else Inr (hd (map f xs), tl (map f xs)))" for xs :: "string list" and f :: "string \<Rightarrow> number"
    by (cases xs) simp_all
  show ?thesis
    unfolding c
    by (simp add: getIndices_def collectIndices_def fetchText_def Let_def p
        split: option.splits)
qed

lemma example_getIndices: "getIndices example_host example_session None = Inr (Num 0, [Num 5, Num 7])"
  by code_simp

text \<open>The indices that \<open>initialize\<close> stores are natural numbers: the form that the
  statement on the target time takes for the key-byte indices.\<close>

lemma collectIndices_digits:
  "list_all (\<lambda>cap. cap \<noteq> [] \<and> length cap \<le> 2 \<and> list_all is_digit cap) (collectIndices h str)"
  by (simp add: collectIndices_def indices_exec_all_digits split: option.splits)

lemma getIndices_numbers:
  assumes "getIndices h s d = Inr (ri, idxs)"
  shows "\<exists>r is. ri = Num (int r) \<and> idxs = map (\<lambda>i. Num (int i)) is"
proof -
  let ?caps = "collectIndices h (outerHTML (doc_or d (homePageDocument s)))"
  from assms have ne: "?caps \<noteq> []"
    and ri: "ri = hd (map parseInt10 ?caps)" and idxs: "idxs = tl (map parseInt10 ?caps)"
    by (auto simp: getIndices_def Let_def split: if_splits)
  have "map parseInt10 ?caps = map (\<lambda>cap. Num (int (digits_value cap))) ?caps"
    using collectIndices_digits [of h "outerHTML (doc_or d (homePageDocument s))"]
    by (intro map_cong refl parseInt10_digits) (auto simp: list_all_iff)
  with ne ri idxs have "ri = Num (int (digits_value (hd ?caps)))"
    and "idxs = map (\<lambda>i. Num (int i)) (map digits_value (tl ?caps))"
    by (simp_all add: hd_map map_tl comp_def)
  then show ?thesis by blast
qed

lemma initialize_indices:
  assumes "initialize h s0 = (Inr (), s)" and "\<not> isInitialized s0"
  shows "\<exists>r is. isInitialized s \<and> DEFAULT_ROW_INDEX s = Some (Num (int r)) \<and>
           DEFAULT_KEY_BYTES_INDICES s = Some (map (\<lambda>i. Num (int i)) is)"
proof -
  from assms obtain ri idxs where g: "getIndices h s0 (Some (homePageDocument s0)) = Inr (ri, idxs)"
    and s: "isInitialized s" "DEFAULT_ROW_INDEX s = Some ri" "DEFAULT_KEY_BYTES_INDICES s = Some idxs"
    by (auto simp: initialize_def Let_def split: sum.splits prod.splits if_splits)
  from getIndices_numbers [OF g] s show ?thesis by auto
qed

end
